theory Spec2Isabelle
  imports Complex_Main "HOL-Library.Word"
begin

unbundle bit_operations_syntax

section \<open>uTimerLib: the timer object and its modelled backends\<close>

text \<open>
  The library is one C++ class, \<^verbatim>\<open>uTimerLib\<close>, whose method bodies are selected by the
  preprocessor for one target. Three targets are embedded here, each from its own
  \<^verbatim>\<open>#ifdef\<close> sections of \<^verbatim>\<open>src/uTimerLib.cpp\<close>:
  \<^item> \<^verbatim>\<open>ARDUINO_ARCH_AVR\<close>: the 8-bit Timer2, driven through its registers; the target
    carries the board clock \<^verbatim>\<open>F_CPU\<close>, a macro of the build;
  \<^item> \<^verbatim>\<open>ARDUINO_ARCH_ESP8266 / ARDUINO_ARCH_ESP32\<close>: the software ticker;
  \<^item> \<^verbatim>\<open>_VARIANT_ARDUINO_STM32_\<close>: the library object \<^verbatim>\<open>Timer3\<close>, and an interrupt
    handler of its own.
  The SAM and SAMD targets compute their plans with inexact floating-point constants;
  they are not embedded.

  Naming: a leading underscore of the source is written \<open>u_\<close> and a double one \<open>uu_\<close>
  (\<^verbatim>\<open>_overflows\<close> is \<open>u_overflows\<close>, \<^verbatim>\<open>__overflows\<close> is \<open>uu_overflows\<close>).
\<close>

datatype arch = ARDUINO_ARCH_AVR nat | ARDUINO_ARCH_ESP | VARIANT_ARDUINO_STM32

text \<open>
  Modelled from the spec: the header \<^verbatim>\<open>uTimerLib.h\<close>, which defines the mode macros, is
  not among the sources. The mode is the spec's enumeration of Off, Timeout and Interval,
  under the three names that the source assigns to \<^verbatim>\<open>_type\<close> and compares it with.
\<close>

datatype timer_type = UTIMERLIB_TYPE_OFF | UTIMERLIB_TYPE_TIMEOUT | UTIMERLIB_TYPE_INTERVAL

text \<open>
  A callback is a function \<^verbatim>\<open>void ()\<close>; only its identity matters here. The setters take
  a pointer to one, and any pointer can be passed, \<^verbatim>\<open>NULL\<close> included: a pointer is
  \<open>None\<close> when it is \<^verbatim>\<open>NULL\<close> and \<open>Some f\<close> when it points to the function \<open>f\<close>. The
  body of a callback is opaque: it is assumed not to call back into the timer object.
\<close>

type_synonym callback = nat

text \<open>The ESP ticker object: detached, or attached with the period it was given.\<close>

datatype ticker = Detached | Attached_ms nat | Attached_s nat

text \<open>
  Modelled from the spec: the header \<^verbatim>\<open>uTimerLib.h\<close>, which declares the fields and their
  types, is not among the sources. The spec's counters are unsigned integers; they are
  natural numbers here, and every assignment writes out the reduction to
  \<^verbatim>\<open>unsigned long\<close> (32 bits on the three targets) of the expression that computes the
  value. On AVR every overflow count lies below \<open>2 ^ 18\<close>, and every remainder below 256
  unless the clock rescales the microseconds to 0 (there the expression of line 161
  gives 256, which a field of one byte would hold as 0; the preload that reaches the
  register is 0 in both cases).

  The record has the fields of the object that the methods use, the AVR registers they
  write, the ESP ticker, what the methods ask of the STM32 library timer (its period in
  microseconds, whether it runs, whether the handler is attached), and a log of
  callback invocations: each entry holds the pointer that was called and the value of
  \<^verbatim>\<open>_type\<close> at the moment of the call.
\<close>

record uTimerLib =
  u_overflows :: nat
  uu_overflows :: nat
  u_remaining :: nat
  uu_remaining :: nat
  u_cb :: "callback option"
  u_type :: timer_type
  u_toInit :: bool
  ASSR :: "8 word"
  TCCR2A :: "8 word"
  TCCR2B :: "8 word"
  TCNT2 :: "8 word"
  TIMSK2 :: "8 word"
  SREG :: "8 word"
  u_ticker :: ticker
  Timer3_period :: nat
  Timer3_running :: bool
  Timer3_attached :: bool
  invoked :: "(callback option \<times> timer_type) list"

text \<open>
  Modelled from the spec: the header \<^verbatim>\<open>uTimerLib.h\<close>, which declares and initialises the
  fields, is not among the sources. The spec's timer starts in mode Off with no callback;
  the counters start at zero, as a statically allocated object does, and the handler is
  still to be attached. The constructor adds nothing: on STM32 it calls \<^verbatim>\<open>clearTimer\<close>,
  which leaves this state as it is.
\<close>

definition init_state :: uTimerLib where
  "init_state = \<lparr> u_overflows = 0, uu_overflows = 0, u_remaining = 0, uu_remaining = 0,
     u_cb = None, u_type = UTIMERLIB_TYPE_OFF, u_toInit = True,
     ASSR = 0, TCCR2A = 0, TCCR2B = 0, TCNT2 = 0, TIMSK2 = 0, SREG = 0,
     u_ticker = Detached,
     Timer3_period = 0, Timer3_running = False, Timer3_attached = False,
     invoked = [] \<rparr>"

subsection \<open>Constants of the toolchain\<close>

text \<open>Bit positions of the ATmega328P registers, from the AVR toolchain's \<^verbatim>\<open>avr/io.h\<close>.\<close>

definition CS20 :: nat where "CS20 = 0"
definition CS21 :: nat where "CS21 = 1"
definition CS22 :: nat where "CS22 = 2"
definition AS2 :: nat where "AS2 = 5"
definition COM2A1 :: nat where "COM2A1 = 7"
definition TOIE2 :: nat where "TOIE2 = 0"
definition OCIE2A :: nat where "OCIE2A = 1"

subsection \<open>Arithmetic of the target\<close>

text \<open>Reduction of an integer expression to \<^verbatim>\<open>unsigned long\<close>.\<close>

definition ul :: "nat \<Rightarrow> nat" where
  "ul x = x mod 2 ^ 32"

text \<open>
  Conversion of a floating-point value to an unsigned integer: truncation. Every
  floating-point value the backends compute is a non-negative multiple of one half
  below \<open>2 ^ 32\<close>, which both float widths hold exactly, so the values are rationals here.
\<close>

definition to_unsigned :: "rat \<Rightarrow> nat" where
  "to_unsigned x = nat \<lfloor>x\<rfloor>"

text \<open>\<^verbatim>\<open>cli()\<close> and \<^verbatim>\<open>sei()\<close>: the global interrupt flag, bit 7 of \<^verbatim>\<open>SREG\<close>.\<close>

definition cli :: "uTimerLib \<Rightarrow> uTimerLib" where
  "cli t = t\<lparr>SREG := SREG t AND NOT (push_bit 7 1)\<rparr>"

definition sei :: "uTimerLib \<Rightarrow> uTimerLib" where
  "sei t = t\<lparr>SREG := SREG t OR push_bit 7 1\<rparr>"

text \<open>
  The first statement of both AVR attach methods (lines 116 to 118 and 428 to 430): a
  clock other than 16 MHz rescales the duration by the integer quotient of the clocks.
\<close>

definition avr_rescale :: "nat \<Rightarrow> nat \<Rightarrow> nat" where
  "avr_rescale F_CPU x = (if F_CPU \<noteq> 16000000 then ul (F_CPU div 16000000 * x) else x)"

subsection \<open>The methods\<close>

text \<open>
  \<^verbatim>\<open>_loadRemaining\<close>: on AVR the counter register is preloaded; the ESP and the STM32
  have nothing to do.
\<close>

definition u_loadRemaining :: "arch \<Rightarrow> uTimerLib \<Rightarrow> uTimerLib" where
  "u_loadRemaining a t =
     (case a of
        ARDUINO_ARCH_AVR F_CPU \<Rightarrow> t\<lparr>TCNT2 := of_nat (u_remaining t)\<rparr>
      | ARDUINO_ARCH_ESP \<Rightarrow> t
      | VARIANT_ARDUINO_STM32 \<Rightarrow> t)"

text \<open>\<^verbatim>\<open>clearTimer\<close>: the mode goes to Off and the backend is disarmed.\<close>

definition clearTimer :: "arch \<Rightarrow> uTimerLib \<Rightarrow> uTimerLib" where
  "clearTimer a t =
     (let t = t\<lparr>u_type := UTIMERLIB_TYPE_OFF\<rparr> in
      case a of
        ARDUINO_ARCH_AVR F_CPU \<Rightarrow>
          (let t = t\<lparr>TIMSK2 := TIMSK2 t AND NOT (push_bit TOIE2 1)\<rparr> in
           t\<lparr>SREG := SREG t AND 127\<rparr>)
      | ARDUINO_ARCH_ESP \<Rightarrow> t\<lparr>u_ticker := Detached\<rparr>
      | VARIANT_ARDUINO_STM32 \<Rightarrow> t\<lparr>Timer3_running := False\<rparr>)"

text \<open>
  The plan of \<^verbatim>\<open>_attachInterrupt_us\<close> on AVR (lines 136 to 164): the prescaler mask, the
  number of whole overflows and the preload of the last leg, from the microseconds.
\<close>

definition avr_plan_us :: "nat \<Rightarrow> 8 word \<times> nat \<times> nat" where
  "avr_plan_us us =
     (if us \<ge> 16384 then
        (push_bit CS22 1 OR push_bit CS21 1 OR push_bit CS20 1,
         us div 16384,
         to_unsigned (256 - (of_nat ((us mod 16384) div 64) + 1 / 2)))
      else if us \<ge> 4096 then
        (push_bit CS22 1 OR push_bit CS21 1 OR push_bit CS20 1, 0,
         to_unsigned (256 - (of_nat (us div 64) + 1 / 2)))
      else if us \<ge> 2048 then
        (push_bit CS22 1 OR push_bit CS21 1, 0,
         to_unsigned (256 - (of_nat (us div 16) + 1 / 2)))
      else if us \<ge> 1024 then
        (push_bit CS22 1 OR push_bit CS20 1, 0,
         to_unsigned (256 - (of_nat (us div 8) + 1 / 2)))
      else if us \<ge> 512 then
        (push_bit CS22 1, 0,
         to_unsigned (256 - (of_nat (us div 4) + 1 / 2)))
      else if us \<ge> 128 then
        (push_bit CS21 1 OR push_bit CS20 1, 0,
         to_unsigned (256 - (of_nat (us div 2) + 1 / 2)))
      else if us \<ge> 16 then
        (push_bit CS21 1, 0, ul (2 ^ 32 + 256 - ul (us * 2)))
      else
        (push_bit CS20 1, 0, ul (2 ^ 32 + 256 - ul (us * 16))))"

text \<open>
  The register writes that follow the plan in both AVR attach methods. The microsecond
  method clears \<^verbatim>\<open>_remaining\<close> after loading it (line 176); the seconds method does not
  (line 463), which the flag \<open>clr\<close> tells apart.
\<close>

definition avr_arm :: "nat \<Rightarrow> bool \<Rightarrow> 8 word \<Rightarrow> uTimerLib \<Rightarrow> uTimerLib" where
  "avr_arm F_CPU clr CSMask t =
     (let t = t\<lparr>uu_overflows := u_overflows t\<rparr>;
          t = t\<lparr>uu_remaining := u_remaining t\<rparr>;
          t = t\<lparr>ASSR := ASSR t AND NOT (push_bit AS2 1)\<rparr>;
          t = t\<lparr>TCCR2A := push_bit COM2A1 1\<rparr>;
          t = t\<lparr>TCCR2B := (TCCR2B t AND
                  NOT (push_bit CS22 1 OR push_bit CS21 1 OR push_bit CS20 1)) OR CSMask\<rparr>;
          t = (if uu_overflows t = 0
               then (let t = u_loadRemaining (ARDUINO_ARCH_AVR F_CPU) t in
                     if clr then t\<lparr>u_remaining := 0\<rparr> else t)
               else t\<lparr>TCNT2 := 0\<rparr>);
          t = t\<lparr>TIMSK2 := TIMSK2 t OR push_bit TOIE2 1\<rparr>;
          t = t\<lparr>TIMSK2 := TIMSK2 t AND NOT (push_bit OCIE2A 1)\<rparr>
      in sei t)"

text \<open>
  What both STM32 attach methods do once the counters are set (lines 192 to 197 and 481
  to 486): the handler is attached on the first call, and the library timer is
  resumed.
\<close>

definition stm32_start :: "uTimerLib \<Rightarrow> uTimerLib" where
  "stm32_start t =
     (let t = (if u_toInit t then t\<lparr>u_toInit := False, Timer3_attached := True\<rparr> else t)
      in t\<lparr>Timer3_running := True\<rparr>)"

text \<open>
  \<^verbatim>\<open>_attachInterrupt_us\<close>. On the ESP the milliseconds are
  \<^verbatim>\<open>unsigned long int ms = (us / 1000) + 0.5\<close>: an integer division, one half added in
  floating point, and the truncation back to an integer. On STM32 the library timer is
  given the microseconds as its period; the compare value it is given next is the
  library's own result and is not modelled.
\<close>

definition u_attachInterrupt_us :: "arch \<Rightarrow> 32 word \<Rightarrow> uTimerLib \<Rightarrow> uTimerLib" where
  "u_attachInterrupt_us a us t =
     (if us = 0 then t
      else case a of
        ARDUINO_ARCH_AVR F_CPU \<Rightarrow>
          (let us = avr_rescale F_CPU (unat us);
               t = cli t;
               (CSMask, ov, rm) = avr_plan_us us;
               t = t\<lparr>u_overflows := ov, u_remaining := rm\<rparr>
           in avr_arm F_CPU True CSMask t)
      | ARDUINO_ARCH_ESP \<Rightarrow>
          (let ms = to_unsigned (of_nat (unat us div 1000) + 1 / 2);
               ms = (if ms = 0 then 1 else ms);
               t = t\<lparr>u_overflows := 0, uu_overflows := 0, u_remaining := 0, uu_remaining := 0\<rparr>
           in t\<lparr>u_ticker := Attached_ms ms\<rparr>)
      | VARIANT_ARDUINO_STM32 \<Rightarrow>
          (let t = t\<lparr>u_overflows := 0, uu_overflows := 0, u_remaining := 0, uu_remaining := 0\<rparr>;
               t = t\<lparr>Timer3_period := unat us\<rparr>
           in stm32_start t))"

text \<open>
  \<^verbatim>\<open>_attachInterrupt_s\<close>. On AVR the overflow count is computed by one of two
  expressions, chosen by the value that \<^verbatim>\<open>_overflows\<close> holds on entry (line 440). On
  STM32 the library timer gets a period of one second and the seconds are the overflow
  count.
\<close>

definition u_attachInterrupt_s :: "arch \<Rightarrow> 32 word \<Rightarrow> uTimerLib \<Rightarrow> uTimerLib" where
  "u_attachInterrupt_s a s t =
     (if s = 0 then t
      else case a of
        ARDUINO_ARCH_AVR F_CPU \<Rightarrow>
          (let s = avr_rescale F_CPU (unat s);
               t = cli t;
               CSMask = push_bit CS22 1 OR push_bit CS21 1 OR push_bit CS20 1;
               t = (if u_overflows t > 500000
                    then t\<lparr>u_overflows := ul (s div 16384 * 1000000)\<rparr>
                    else t\<lparr>u_overflows := ul (s * 1000000) div 16384\<rparr>);
               t = (if s > 16384 then
                      (let temp = to_unsigned (of_nat (s div 16384) * 16384) in
                       t\<lparr>u_remaining := to_unsigned (256 -
                            (of_nat ((ul (ul (2 ^ 32 + s - temp) * 1000000) mod 16384) div 64)
                             + 1 / 2))\<rparr>)
                    else
                      t\<lparr>u_remaining := to_unsigned (256 -
                           (of_nat ((ul (s * 1000000) mod 16384) div 64) + 1 / 2))\<rparr>)
           in avr_arm F_CPU False CSMask t)
      | ARDUINO_ARCH_ESP \<Rightarrow>
          (let t = t\<lparr>u_overflows := 0, uu_overflows := 0, u_remaining := 0, uu_remaining := 0\<rparr>
           in t\<lparr>u_ticker := Attached_s (unat s)\<rparr>)
      | VARIANT_ARDUINO_STM32 \<Rightarrow>
          (let t = t\<lparr>Timer3_period := 1000000\<rparr>;
               t = t\<lparr>u_overflows := unat s, uu_overflows := unat s\<rparr>;
               t = t\<lparr>u_remaining := 0, uu_remaining := 0\<rparr>
           in stm32_start t))"

text \<open>
  The four public setters: cancel, store the pointer as it is given and the mode, attach.
\<close>

definition setInterval_us ::
    "arch \<Rightarrow> callback option \<Rightarrow> 32 word \<Rightarrow> uTimerLib \<Rightarrow> uTimerLib" where
  "setInterval_us a cb us t =
     (let t = clearTimer a t;
          t = t\<lparr>u_cb := cb\<rparr>;
          t = t\<lparr>u_type := UTIMERLIB_TYPE_INTERVAL\<rparr>
      in u_attachInterrupt_us a us t)"

definition setTimeout_us ::
    "arch \<Rightarrow> callback option \<Rightarrow> 32 word \<Rightarrow> uTimerLib \<Rightarrow> uTimerLib" where
  "setTimeout_us a cb us t =
     (let t = clearTimer a t;
          t = t\<lparr>u_cb := cb\<rparr>;
          t = t\<lparr>u_type := UTIMERLIB_TYPE_TIMEOUT\<rparr>
      in u_attachInterrupt_us a us t)"

definition setInterval_s ::
    "arch \<Rightarrow> callback option \<Rightarrow> 32 word \<Rightarrow> uTimerLib \<Rightarrow> uTimerLib" where
  "setInterval_s a cb s t =
     (let t = clearTimer a t;
          t = t\<lparr>u_cb := cb\<rparr>;
          t = t\<lparr>u_type := UTIMERLIB_TYPE_INTERVAL\<rparr>
      in u_attachInterrupt_s a s t)"

definition setTimeout_s ::
    "arch \<Rightarrow> callback option \<Rightarrow> 32 word \<Rightarrow> uTimerLib \<Rightarrow> uTimerLib" where
  "setTimeout_s a cb s t =
     (let t = clearTimer a t;
          t = t\<lparr>u_cb := cb\<rparr>;
          t = t\<lparr>u_type := UTIMERLIB_TYPE_TIMEOUT\<rparr>
      in u_attachInterrupt_s a s t)"

text \<open>
  The call \<^verbatim>\<open>_cb()\<close>: logged with the pointer that is called (\<open>None\<close> is a call through
  \<^verbatim>\<open>NULL\<close>) and the mode the callback finds.
\<close>

definition call_cb :: "uTimerLib \<Rightarrow> uTimerLib" where
  "call_cb t = t\<lparr>invoked := invoked t @ [(u_cb t, u_type t)]\<rparr>"

text \<open>
  \<^verbatim>\<open>_interrupt\<close>. After the test for Off, the STM32 build calls the callback and does
  nothing else (lines 706 and 707); every other build counts the overflows down (lines
  709 to 751). The reload branches that follow for SAM and SAMD are absent on AVR and
  ESP.
\<close>

definition u_interrupt :: "arch \<Rightarrow> uTimerLib \<Rightarrow> uTimerLib" where
  "u_interrupt a t =
     (if u_type t = UTIMERLIB_TYPE_OFF then t
      else if a = VARIANT_ARDUINO_STM32 then call_cb t
      else
        (let t = (if u_overflows t > 0 then t\<lparr>u_overflows := u_overflows t - 1\<rparr> else t) in
         if u_overflows t = 0 \<and> u_remaining t > 0 then
           (let t = u_loadRemaining a t in t\<lparr>u_remaining := 0\<rparr>)
         else if u_overflows t = 0 \<and> u_remaining t = 0 then
           (let t =
              (if u_type t = UTIMERLIB_TYPE_TIMEOUT then clearTimer a t
               else if u_type t = UTIMERLIB_TYPE_INTERVAL then
                 (if uu_overflows t = 0 then
                    (let t = t\<lparr>u_remaining := uu_remaining t\<rparr>;
                         t = u_loadRemaining a t
                     in t\<lparr>u_remaining := 0\<rparr>)
                  else
                    (let t = t\<lparr>u_overflows := uu_overflows t\<rparr>
                     in t\<lparr>u_remaining := uu_remaining t\<rparr>))
               else t)
            in call_cb t)
         else t))"

text \<open>A run of hardware expiry events: the handler is entered once per event.\<close>

fun expiries :: "arch \<Rightarrow> nat \<Rightarrow> uTimerLib \<Rightarrow> uTimerLib" where
  "expiries a 0 t = t"
| "expiries a (Suc n) t = expiries a n (u_interrupt a t)"

text \<open>The plan held by the object: working counters and their saved originals.\<close>

definition plan :: "uTimerLib \<Rightarrow> nat \<times> nat \<times> nat \<times> nat" where
  "plan t = (u_overflows t, u_remaining t, uu_overflows t, uu_remaining t)"

subsection \<open>Sequences of calls and events\<close>

text \<open>
  What the application and the hardware can do to the object: call one of the four
  setters with a pointer and a duration, call \<^verbatim>\<open>clearTimer\<close>, or deliver an expiry.
\<close>

datatype event =
    SetInterval_us "callback option" "32 word"
  | SetTimeout_us "callback option" "32 word"
  | SetInterval_s "callback option" "32 word"
  | SetTimeout_s "callback option" "32 word"
  | ClearTimer
  | Expire

fun apply_event :: "arch \<Rightarrow> event \<Rightarrow> uTimerLib \<Rightarrow> uTimerLib" where
  "apply_event a (SetInterval_us cb us) t = setInterval_us a cb us t"
| "apply_event a (SetTimeout_us cb us) t = setTimeout_us a cb us t"
| "apply_event a (SetInterval_s cb s) t = setInterval_s a cb s t"
| "apply_event a (SetTimeout_s cb s) t = setTimeout_s a cb s t"
| "apply_event a ClearTimer t = clearTimer a t"
| "apply_event a Expire t = u_interrupt a t"

fun run :: "arch \<Rightarrow> event list \<Rightarrow> uTimerLib \<Rightarrow> uTimerLib" where
  "run a [] t = t"
| "run a (e # es) t = run a es (apply_event a e t)"

text \<open>An event that passes a pointer passes one to a function, not \<^verbatim>\<open>NULL\<close>.\<close>

fun passes_function :: "event \<Rightarrow> bool" where
  "passes_function (SetInterval_us cb us) = (cb \<noteq> None)"
| "passes_function (SetTimeout_us cb us) = (cb \<noteq> None)"
| "passes_function (SetInterval_s cb s) = (cb \<noteq> None)"
| "passes_function (SetTimeout_s cb s) = (cb \<noteq> None)"
| "passes_function ClearTimer = True"
| "passes_function Expire = True"

subsection \<open>Notions of the specification\<close>

text \<open>
  The number of hardware expiries that make one logical period of the saved plan: the
  whole overflows, and one more for the remainder leg when there is one; a plan without
  overflows is its remainder leg alone.
\<close>

definition period_events :: "uTimerLib \<Rightarrow> nat" where
  "period_events t =
     (if uu_overflows t = 0 then 1
      else if uu_remaining t > 0 then uu_overflows t + 1
      else uu_overflows t)"

text \<open>
  The position inside a period, used as the invariant of the interval cycle: \<open>i\<close>
  expiries of the current period of the plan \<open>(k, r)\<close> have been consumed.
\<close>

definition in_period :: "callback option \<Rightarrow> nat \<Rightarrow> nat \<Rightarrow> nat \<Rightarrow> uTimerLib \<Rightarrow> bool" where
  "in_period cb k r i t =
     (u_type t = UTIMERLIB_TYPE_INTERVAL \<and> u_cb t = cb \<and>
      uu_overflows t = k \<and> uu_remaining t = r \<and>
      (if k = 0 then i = 0 \<and> u_overflows t = 0 \<and> u_remaining t = 0
       else if i < k then u_overflows t = k - i \<and> u_remaining t = r
       else i = k \<and> r > 0 \<and> u_overflows t = 0 \<and> u_remaining t = 0))"

text \<open>
  The bound that both overflow counters keep in every state the object can reach on AVR
  and on the ESP: the largest quotient of an \<^verbatim>\<open>unsigned long\<close> by 16384.
\<close>

definition counters_in_range :: "uTimerLib \<Rightarrow> bool" where
  "counters_in_range t = (u_overflows t \<le> 262143 \<and> uu_overflows t \<le> 262143)"

text \<open>
  Rounding to the nearest tick with ties up, in the specification's words: the duration
  \<open>d\<close> in ticks of \<open>u\<close> units each, one half added, truncated.
\<close>

definition nearest_tick :: "nat \<Rightarrow> nat \<Rightarrow> nat" where
  "nearest_tick d u = nat \<lfloor>(of_nat d :: rat) / of_nat u + 1 / 2\<rfloor>"

section \<open>Basic facts about the methods\<close>

lemma clearTimer_type: "u_type (clearTimer a t) = UTIMERLIB_TYPE_OFF"
  by (cases a) (simp_all add: clearTimer_def Let_def)

lemma clearTimer_invoked: "invoked (clearTimer a t) = invoked t"
  by (cases a) (simp_all add: clearTimer_def Let_def)

lemma clearTimer_cb: "u_cb (clearTimer a t) = u_cb t"
  by (cases a) (simp_all add: clearTimer_def Let_def)

lemma clearTimer_plan: "plan (clearTimer a t) = plan t"
  by (cases a) (simp_all add: clearTimer_def plan_def Let_def)

lemma avr_rescale_16: "avr_rescale 16000000 x = x"
  by (simp add: avr_rescale_def)

lemma avr_rescale_lt: "x < 2 ^ 32 \<Longrightarrow> avr_rescale F_CPU x < 2 ^ 32"
  by (simp add: avr_rescale_def ul_def)

lemma avr_arm_plan:
  "plan (avr_arm F_CPU clr m t) =
     (u_overflows t, if u_overflows t = 0 \<and> clr then 0 else u_remaining t,
      u_overflows t, u_remaining t)"
  by (simp add: plan_def avr_arm_def sei_def u_loadRemaining_def Let_def)

lemma avr_arm_frame:
  "invoked (avr_arm F_CPU clr m t) = invoked t \<and> u_cb (avr_arm F_CPU clr m t) = u_cb t \<and>
   u_type (avr_arm F_CPU clr m t) = u_type t"
  by (simp add: avr_arm_def sei_def u_loadRemaining_def Let_def)

lemma stm32_start_frame:
  "invoked (stm32_start t) = invoked t \<and> u_cb (stm32_start t) = u_cb t \<and>
   u_type (stm32_start t) = u_type t \<and> plan (stm32_start t) = plan t"
  by (simp add: stm32_start_def plan_def Let_def)

lemma attach_us_frame:
  "invoked (u_attachInterrupt_us a us t) = invoked t \<and>
   u_cb (u_attachInterrupt_us a us t) = u_cb t \<and>
   u_type (u_attachInterrupt_us a us t) = u_type t"
  by (cases a) (simp_all add: u_attachInterrupt_us_def avr_arm_frame stm32_start_frame cli_def
      Let_def split: prod.splits)

lemma attach_s_frame:
  "invoked (u_attachInterrupt_s a s t) = invoked t \<and>
   u_cb (u_attachInterrupt_s a s t) = u_cb t \<and>
   u_type (u_attachInterrupt_s a s t) = u_type t"
  by (cases a) (simp_all add: u_attachInterrupt_s_def avr_arm_frame stm32_start_frame cli_def
      Let_def)

lemma attach_us_zero: "u_attachInterrupt_us a 0 t = t"
  by (simp add: u_attachInterrupt_us_def)

lemma attach_s_zero: "u_attachInterrupt_s a 0 t = t"
  by (simp add: u_attachInterrupt_s_def)

lemma interrupt_off: "u_type t = UTIMERLIB_TYPE_OFF \<Longrightarrow> u_interrupt a t = t"
  by (simp add: u_interrupt_def)

lemma interrupt_cb: "u_cb (u_interrupt a t) = u_cb t"
  by (cases a)
     (simp_all add: u_interrupt_def call_cb_def clearTimer_def u_loadRemaining_def Let_def)

lemma interrupt_type:
  "u_type (u_interrupt a t) = UTIMERLIB_TYPE_OFF \<or> u_type (u_interrupt a t) = u_type t"
  by (cases a)
     (simp_all add: u_interrupt_def call_cb_def clearTimer_def u_loadRemaining_def Let_def)

lemma expiries_off: "u_type t = UTIMERLIB_TYPE_OFF \<Longrightarrow> expiries a n t = t"
  by (induction n) (simp_all add: interrupt_off)

lemma expiries_Suc: "expiries a (Suc n) t = u_interrupt a (expiries a n t)"
  by (induction n arbitrary: t) simp_all

subsection \<open>Truncation of the half-integers\<close>

lemma to_unsigned_half: "to_unsigned (of_nat n + 1 / 2) = n"
proof -
  have "\<lfloor>(of_nat n :: rat) + 1 / 2\<rfloor> = int n"
    by (rule floor_unique) simp_all
  then show ?thesis by (simp add: to_unsigned_def)
qed

lemma to_unsigned_preload:
  assumes "q \<le> 255"
  shows "to_unsigned (256 - (of_nat q + 1 / 2)) = 255 - q"
proof -
  have "(256 :: rat) - (of_nat q + 1 / 2) = of_int (255 - int q) + 1 / 2"
    by simp
  moreover have "\<lfloor>(of_int (255 - int q) :: rat) + 1 / 2\<rfloor> = 255 - int q"
    by (rule floor_unique) simp_all
  ultimately have "\<lfloor>(256 :: rat) - (of_nat q + 1 / 2)\<rfloor> = 255 - int q"
    by simp
  with assms show ?thesis by (simp add: to_unsigned_def)
qed

lemma floor_rat_numeral:
  "\<lfloor>(numeral a :: rat) / numeral b\<rfloor> = numeral a div numeral b"
  using floor_divide_of_int_eq [of "numeral a" "numeral b", where 'a = rat] by simp

section \<open>Cancelling before the first expiry\<close>

text \<open>
  Claim C4. A timeout that is cancelled with \<^verbatim>\<open>clearTimer\<close> before any expiry never
  invokes its callback: whatever number of stale expiries arrives afterwards, the
  handler leaves the object as \<^verbatim>\<open>clearTimer\<close> left it, in mode Off, and the log of
  invocations is the one from before the timeout was set. This holds for the
  microsecond and the seconds setter, on every backend of the model.
\<close>

theorem cancelled_timeout_never_fires:
  "expiries a n (clearTimer a (setTimeout_us a cb us t)) = clearTimer a (setTimeout_us a cb us t)
   \<and> u_type (expiries a n (clearTimer a (setTimeout_us a cb us t))) = UTIMERLIB_TYPE_OFF
   \<and> invoked (expiries a n (clearTimer a (setTimeout_us a cb us t))) = invoked t
   \<and> expiries a n (clearTimer a (setTimeout_s a cb s t)) = clearTimer a (setTimeout_s a cb s t)
   \<and> u_type (expiries a n (clearTimer a (setTimeout_s a cb s t))) = UTIMERLIB_TYPE_OFF
   \<and> invoked (expiries a n (clearTimer a (setTimeout_s a cb s t))) = invoked t"
  by (simp add: expiries_off clearTimer_type clearTimer_invoked setTimeout_us_def
      setTimeout_s_def attach_us_frame attach_s_frame Let_def)

section \<open>A duration of zero\<close>

text \<open>
  Claim C5, as stated: a setter called with duration 0 leaves mode, callback and plan
  untouched. The mode does not survive: on a fresh object, \<^verbatim>\<open>setInterval_us\<close> with
  duration 0 leaves the mode at Interval.
\<close>

theorem zero_duration_changes_mode:
  "u_type (setInterval_us (ARDUINO_ARCH_AVR 16000000) (Some 7) 0 init_state)
     \<noteq> u_type init_state"
  by (simp add: setInterval_us_def attach_us_zero clearTimer_def init_state_def Let_def)

text \<open>
  Claim C5, amended. The zero test sits in the attach methods, after the setter has
  cancelled the timer and stored its arguments. So a setter called with duration 0 does
  what \<^verbatim>\<open>clearTimer\<close> does, then overwrites the stored callback with the new one and the
  mode with the requested one; nothing is armed, and the plan (working and saved
  overflow counts and remainders) is left as it was.
\<close>

theorem zero_duration_effect:
  "setInterval_us a cb 0 t =
     (clearTimer a t)\<lparr>u_cb := cb, u_type := UTIMERLIB_TYPE_INTERVAL\<rparr>
   \<and> setTimeout_us a cb 0 t =
     (clearTimer a t)\<lparr>u_cb := cb, u_type := UTIMERLIB_TYPE_TIMEOUT\<rparr>
   \<and> setInterval_s a cb 0 t =
     (clearTimer a t)\<lparr>u_cb := cb, u_type := UTIMERLIB_TYPE_INTERVAL\<rparr>
   \<and> setTimeout_s a cb 0 t =
     (clearTimer a t)\<lparr>u_cb := cb, u_type := UTIMERLIB_TYPE_TIMEOUT\<rparr>
   \<and> plan (setInterval_us a cb 0 t) = plan t \<and> plan (setTimeout_us a cb 0 t) = plan t
   \<and> plan (setInterval_s a cb 0 t) = plan t \<and> plan (setTimeout_s a cb 0 t) = plan t"
  by (simp add: setInterval_us_def setTimeout_us_def setInterval_s_def setTimeout_s_def
      attach_us_zero attach_s_zero Let_def plan_def clearTimer_plan [unfolded plan_def])

section \<open>The completion event\<close>

text \<open>
  Claim C7, as stated: at the completion of a timeout the callback runs before the
  transition to Off. On AVR, the one expiry of a 100 microsecond timeout calls the
  callback when \<^verbatim>\<open>_type\<close> is Off already, not while it is Timeout.
\<close>

theorem timeout_callback_sees_off:
  "invoked (u_interrupt (ARDUINO_ARCH_AVR 16000000)
      (setTimeout_us (ARDUINO_ARCH_AVR 16000000) (Some 7) 100 init_state))
     = [(Some 7, UTIMERLIB_TYPE_OFF)]
   \<and> invoked (u_interrupt (ARDUINO_ARCH_AVR 16000000)
      (setTimeout_us (ARDUINO_ARCH_AVR 16000000) (Some 7) 100 init_state))
     \<noteq> [(Some 7, UTIMERLIB_TYPE_TIMEOUT)]"
  by (simp add: u_interrupt_def setTimeout_us_def clearTimer_def u_attachInterrupt_us_def
       avr_arm_def avr_plan_us_def cli_def sei_def u_loadRemaining_def call_cb_def
       init_state_def avr_rescale_16 ul_def Let_def)

text \<open>
  Claim C7, amended. On the AVR and ESP targets, an expiry that finds the timer armed
  with at most one overflow left and no remainder pending is the completion event. It
  calls the stored callback exactly once. In Timeout mode \<^verbatim>\<open>clearTimer\<close> runs first and
  the callback after it, so the callback finds the mode Off; in Interval mode the
  callback finds the mode Interval. The mode after the handler is Off for a timeout and
  unchanged otherwise. (The handler of the STM32 build is another one and is left out
  of this statement.)
\<close>

theorem completion_calls_once_after_clear:
  "a \<noteq> VARIANT_ARDUINO_STM32 \<Longrightarrow>
   u_type t \<noteq> UTIMERLIB_TYPE_OFF \<Longrightarrow> u_overflows t \<le> 1 \<Longrightarrow> u_remaining t = 0 \<Longrightarrow>
   invoked (u_interrupt a t) =
     invoked t @
       [(u_cb t, if u_type t = UTIMERLIB_TYPE_TIMEOUT then UTIMERLIB_TYPE_OFF else u_type t)]
   \<and> u_type (u_interrupt a t) =
       (if u_type t = UTIMERLIB_TYPE_TIMEOUT then UTIMERLIB_TYPE_OFF else u_type t)"
  by (cases a; cases "u_type t")
     (auto simp add: u_interrupt_def call_cb_def clearTimer_def u_loadRemaining_def Let_def)

theorem completion_calls_once_after_clear_witness:
  "ARDUINO_ARCH_AVR 16000000 \<noteq> VARIANT_ARDUINO_STM32
   \<and> u_type (setTimeout_us (ARDUINO_ARCH_AVR 16000000) (Some 7) 100 init_state)
       \<noteq> UTIMERLIB_TYPE_OFF
   \<and> u_overflows (setTimeout_us (ARDUINO_ARCH_AVR 16000000) (Some 7) 100 init_state) \<le> 1
   \<and> u_remaining (setTimeout_us (ARDUINO_ARCH_AVR 16000000) (Some 7) 100 init_state) = 0
   \<and> invoked (u_interrupt (ARDUINO_ARCH_AVR 16000000)
        (setTimeout_us (ARDUINO_ARCH_AVR 16000000) (Some 7) 100 init_state)) =
      [(Some 7, UTIMERLIB_TYPE_OFF)]
   \<and> u_type (u_interrupt (ARDUINO_ARCH_AVR 16000000)
        (setTimeout_us (ARDUINO_ARCH_AVR 16000000) (Some 7) 100 init_state)) =
      UTIMERLIB_TYPE_OFF"
proof -
  let ?a = "ARDUINO_ARCH_AVR 16000000"
  let ?t = "setTimeout_us ?a (Some 7) 100 init_state"
  have a: "?a \<noteq> VARIANT_ARDUINO_STM32" by simp
  have h: "u_type ?t \<noteq> UTIMERLIB_TYPE_OFF" "u_overflows ?t \<le> 1" "u_remaining ?t = 0"
     "u_type ?t = UTIMERLIB_TYPE_TIMEOUT" "u_cb ?t = Some 7" "invoked ?t = []"
    by (simp_all add: setTimeout_us_def clearTimer_def u_attachInterrupt_us_def
       avr_arm_def avr_plan_us_def cli_def sei_def u_loadRemaining_def init_state_def
       avr_rescale_16 ul_def Let_def)
  from completion_calls_once_after_clear [OF a h(1) h(2) h(3)] h
  show ?thesis by simp
qed

text \<open>
  The STM32 handler on any expiry of an armed timer: one call of the callback, with the
  mode as it was, and no \<^verbatim>\<open>clearTimer\<close>; a timeout stays armed.
\<close>

lemma stm32_interrupt:
  "u_type t \<noteq> UTIMERLIB_TYPE_OFF \<Longrightarrow>
   u_interrupt VARIANT_ARDUINO_STM32 t = t\<lparr>invoked := invoked t @ [(u_cb t, u_type t)]\<rparr>"
  by (simp add: u_interrupt_def call_cb_def)

section \<open>Invariants of every reachable state\<close>

text \<open>
  The states the object can reach are those that a sequence of events produces from the
  initial state. When every setter is passed a function, a timer that is not Off has a
  callback. On AVR and on the ESP the overflow counters stay within the quotient range
  of an \<^verbatim>\<open>unsigned long\<close>.
\<close>

lemma apply_event_cb:
  assumes "passes_function e" "u_type t = UTIMERLIB_TYPE_OFF \<or> u_cb t \<noteq> None"
  shows "u_type (apply_event a e t) = UTIMERLIB_TYPE_OFF \<or> u_cb (apply_event a e t) \<noteq> None"
proof (cases e)
  case Expire
  with assms interrupt_type [of a t] show ?thesis by (auto simp add: interrupt_cb)
next
  case ClearTimer
  then show ?thesis by (simp add: clearTimer_type)
qed (use assms(1) in \<open>simp_all add: setInterval_us_def setTimeout_us_def setInterval_s_def
      setTimeout_s_def attach_us_frame attach_s_frame Let_def\<close>)

lemma run_cb:
  "list_all passes_function es \<Longrightarrow> u_type t = UTIMERLIB_TYPE_OFF \<or> u_cb t \<noteq> None \<Longrightarrow>
   u_type (run a es t) = UTIMERLIB_TYPE_OFF \<or> u_cb (run a es t) \<noteq> None"
proof (induction es arbitrary: t)
  case Nil
  then show ?case by simp
next
  case (Cons e es)
  from Cons.prems have e: "passes_function e" and es: "list_all passes_function es"
    by simp_all
  from e Cons.prems(2)
  have "u_type (apply_event a e t) = UTIMERLIB_TYPE_OFF \<or> u_cb (apply_event a e t) \<noteq> None"
    by (rule apply_event_cb)
  with es have "u_type (run a es (apply_event a e t)) = UTIMERLIB_TYPE_OFF \<or>
             u_cb (run a es (apply_event a e t)) \<noteq> None"
    by (rule Cons.IH)
  then show ?case by simp
qed

lemma avr_plan_us_overflows: "fst (snd (avr_plan_us us)) = us div 16384"
  by (simp add: avr_plan_us_def)

lemma unat32_lt: "unat (w :: 32 word) < 2 ^ 32"
  using unsigned_less [of w, where 'a = nat] by simp

lemma lt32_div: "x < 2 ^ 32 \<Longrightarrow> x div 16384 \<le> (262143 :: nat)"
  by simp

lemma ul_div: "ul x div 16384 \<le> 262143"
proof -
  have "ul x < 2 ^ 32" by (simp add: ul_def)
  then show ?thesis by (rule lt32_div)
qed

lemma clearTimer_in_range: "counters_in_range (clearTimer a t) = counters_in_range t"
  by (cases a) (simp_all add: clearTimer_def counters_in_range_def Let_def)

lemma avr_arm_in_range:
  "counters_in_range (avr_arm F_CPU clr m t) = (u_overflows t \<le> 262143)"
  using avr_arm_plan [of F_CPU clr m t] by (auto simp add: counters_in_range_def plan_def)

lemma attach_us_in_range:
  assumes "counters_in_range t" "a \<noteq> VARIANT_ARDUINO_STM32"
  shows "counters_in_range (u_attachInterrupt_us a us t)"
proof (cases a)
  case (ARDUINO_ARCH_AVR F_CPU)
  let ?us = "avr_rescale F_CPU (unat us)"
  obtain m ov rm where p: "avr_plan_us ?us = (m, ov, rm)"
    by (cases "avr_plan_us ?us") auto
  have "?us < 2 ^ 32" using unat32_lt by (rule avr_rescale_lt)
  then have "?us div 16384 \<le> 262143" by (rule lt32_div)
  with avr_plan_us_overflows [of ?us] p have "ov \<le> 262143"
    by simp
  with assms p ARDUINO_ARCH_AVR show ?thesis
    by (simp add: u_attachInterrupt_us_def avr_arm_in_range Let_def)
next
  case ARDUINO_ARCH_ESP
  with assms show ?thesis
    by (simp add: u_attachInterrupt_us_def counters_in_range_def Let_def)
next
  case VARIANT_ARDUINO_STM32
  with assms show ?thesis by simp
qed

lemma attach_s_in_range:
  assumes "counters_in_range t" "a \<noteq> VARIANT_ARDUINO_STM32"
  shows "counters_in_range (u_attachInterrupt_s a s t)"
proof (cases a)
  case (ARDUINO_ARCH_AVR F_CPU)
  from assms have "\<not> 500000 < u_overflows (cli t)"
    by (simp add: counters_in_range_def cli_def)
  with assms ARDUINO_ARCH_AVR ul_div [of "avr_rescale F_CPU (unat s) * 1000000"] show ?thesis
    by (simp add: u_attachInterrupt_s_def avr_arm_in_range Let_def)
next
  case ARDUINO_ARCH_ESP
  with assms show ?thesis
    by (simp add: u_attachInterrupt_s_def counters_in_range_def Let_def)
next
  case VARIANT_ARDUINO_STM32
  with assms show ?thesis by simp
qed

lemma interrupt_in_range: "counters_in_range t \<Longrightarrow> counters_in_range (u_interrupt a t)"
  by (cases a)
     (auto simp add: counters_in_range_def u_interrupt_def call_cb_def clearTimer_def
        u_loadRemaining_def Let_def)

lemma setter_in_range:
  "counters_in_range (t\<lparr>u_cb := c, u_type := y\<rparr>) = counters_in_range t"
  by (simp add: counters_in_range_def)

lemma apply_event_in_range:
  "counters_in_range t \<Longrightarrow> a \<noteq> VARIANT_ARDUINO_STM32 \<Longrightarrow>
   counters_in_range (apply_event a e t)"
  by (cases e)
     (simp_all add: setInterval_us_def setTimeout_us_def setInterval_s_def setTimeout_s_def
        Let_def attach_us_in_range attach_s_in_range interrupt_in_range clearTimer_in_range
        setter_in_range)

lemma run_in_range:
  "counters_in_range t \<Longrightarrow> a \<noteq> VARIANT_ARDUINO_STM32 \<Longrightarrow> counters_in_range (run a es t)"
  by (induction es arbitrary: t) (simp_all add: apply_event_in_range)

lemma reachable_overflows:
  assumes "a \<noteq> VARIANT_ARDUINO_STM32"
  shows "u_overflows (run a es init_state) \<le> 500000"
proof -
  have "counters_in_range init_state" by (simp add: counters_in_range_def init_state_def)
  then have "counters_in_range (run a es init_state)" using assms by (rule run_in_range)
  then show ?thesis by (simp add: counters_in_range_def)
qed

section \<open>The interval cycle\<close>

text \<open>What one expiry does to an armed interval timer, on every build but STM32.\<close>

lemma interrupt_interval:
  assumes "u_type t = UTIMERLIB_TYPE_INTERVAL" "a \<noteq> VARIANT_ARDUINO_STM32"
  shows "u_type (u_interrupt a t) = UTIMERLIB_TYPE_INTERVAL \<and> u_cb (u_interrupt a t) = u_cb t \<and>
    uu_overflows (u_interrupt a t) = uu_overflows t \<and>
    uu_remaining (u_interrupt a t) = uu_remaining t \<and>
    (if u_overflows t \<le> 1 then
       (if u_remaining t > 0 then
          u_overflows (u_interrupt a t) = 0 \<and> u_remaining (u_interrupt a t) = 0 \<and>
          invoked (u_interrupt a t) = invoked t
        else
          u_overflows (u_interrupt a t) = uu_overflows t \<and>
          u_remaining (u_interrupt a t) = (if uu_overflows t = 0 then 0 else uu_remaining t) \<and>
          invoked (u_interrupt a t) = invoked t @ [(u_cb t, UTIMERLIB_TYPE_INTERVAL)])
     else
       u_overflows (u_interrupt a t) = u_overflows t - 1 \<and>
       u_remaining (u_interrupt a t) = u_remaining t \<and>
       invoked (u_interrupt a t) = invoked t)"
proof (cases a)
  case (ARDUINO_ARCH_AVR F_CPU)
  with assms show ?thesis
    by (simp add: u_interrupt_def call_cb_def u_loadRemaining_def Let_def)
next
  case ARDUINO_ARCH_ESP
  with assms show ?thesis
    by (simp add: u_interrupt_def call_cb_def u_loadRemaining_def Let_def)
next
  case VARIANT_ARDUINO_STM32
  with assms show ?thesis by simp
qed

text \<open>
  One expiry moves the position inside the period forward, silently, or closes the
  period with one call of the callback and puts the position back to the start. On
  STM32 this holds for a plan without overflows, where every expiry closes a period.
\<close>

lemma interval_step:
  assumes "in_period cb k r i t" "a \<noteq> VARIANT_ARDUINO_STM32 \<or> k = 0"
  shows "if Suc i < (if k = 0 then 1 else if r > 0 then k + 1 else k)
         then in_period cb k r (Suc i) (u_interrupt a t) \<and> invoked (u_interrupt a t) = invoked t
         else in_period cb k r 0 (u_interrupt a t) \<and>
              invoked (u_interrupt a t) = invoked t @ [(cb, UTIMERLIB_TYPE_INTERVAL)]"
proof (cases "a = VARIANT_ARDUINO_STM32")
  case True
  with assms(2) have k: "k = 0" by simp
  from assms(1) have "u_type t \<noteq> UTIMERLIB_TYPE_OFF" by (simp add: in_period_def)
  with True have "u_interrupt a t = t\<lparr>invoked := invoked t @ [(u_cb t, u_type t)]\<rparr>"
    by (simp add: stm32_interrupt)
  with assms(1) k show ?thesis by (simp add: in_period_def)
next
  case na: False
  from assms have ty: "u_type t = UTIMERLIB_TYPE_INTERVAL"
    by (simp add: in_period_def)
  note st = interrupt_interval [OF ty na]
  show ?thesis
  proof (cases "k = 0")
    case True
    with assms st show ?thesis by (simp add: in_period_def)
  next
    case k: False
    show ?thesis
    proof (cases "i < k")
      case True
      with k assms have c: "u_overflows t = k - i" "u_remaining t = r" "uu_overflows t = k"
        "uu_remaining t = r" "u_cb t = cb"
        by (simp_all add: in_period_def)
      show ?thesis
      proof (cases "Suc i < k")
        case True
        with k c st show ?thesis by (simp add: in_period_def)
      next
        case False
        with True have ik: "k = Suc i" by simp
        with k c st show ?thesis by (simp add: in_period_def)
      qed
    next
      case False
      with k assms have c: "i = k" "r > 0" "u_overflows t = 0" "u_remaining t = 0"
        "uu_overflows t = k" "uu_remaining t = r" "u_cb t = cb"
        by (simp_all add: in_period_def)
      with k st show ?thesis by (simp add: in_period_def)
    qed
  qed
qed

lemma in_period_events:
  "in_period cb k r i t \<Longrightarrow>
   period_events t = (if k = 0 then 1 else if r > 0 then k + 1 else k)"
  by (auto simp add: in_period_def period_events_def)

lemma interval_cycle:
  assumes t0: "in_period cb k r 0 t0" and a: "a \<noteq> VARIANT_ARDUINO_STM32 \<or> k = 0"
  defines "L \<equiv> (if k = 0 then 1 else if r > 0 then k + 1 else k)"
  shows "in_period cb k r (m mod L) (expiries a m t0) \<and>
         invoked (expiries a m t0) =
           invoked t0 @ replicate (m div L) (cb, UTIMERLIB_TYPE_INTERVAL)"
proof (induction m)
  case 0
  with t0 show ?case by simp
next
  case (Suc m)
  let ?t = "expiries a m t0"
  have L0: "0 < L" by (simp add: L_def)
  from Suc have inv: "in_period cb k r (m mod L) ?t"
    and log: "invoked ?t = invoked t0 @ replicate (m div L) (cb, UTIMERLIB_TYPE_INTERVAL)"
    by simp_all
  note step = interval_step [OF inv a, folded L_def]
  show ?case
  proof (cases "Suc (m mod L) < L")
    case True
    then have "Suc m mod L = Suc (m mod L)" "Suc m div L = m div L"
      by (simp_all add: mod_Suc div_Suc)
    with step True log show ?thesis
      by (simp add: expiries_Suc del: expiries.simps)
  next
    case False
    with L0 have eq: "Suc (m mod L) = L"
      using mod_less_divisor [of L m] by linarith
    then have "Suc m mod L = 0" "Suc m div L = Suc (m div L)"
      by (simp_all add: mod_Suc div_Suc)
    with step False log show ?thesis
      by (simp add: expiries_Suc replicate_append_same del: expiries.simps)
  qed
qed

text \<open>The state that \<^verbatim>\<open>setInterval_us\<close> leaves is the start of a period of its plan.\<close>

lemma avr_arm_in_period:
  assumes "u_type t = UTIMERLIB_TYPE_INTERVAL" "u_cb t = cb"
    and "clr \<or> u_overflows t \<noteq> 0"
  shows "in_period cb (u_overflows t) (u_remaining t) 0 (avr_arm F_CPU clr m t)"
  using assms avr_arm_plan [of F_CPU clr m t] avr_arm_frame [of F_CPU clr m t]
  by (auto simp add: in_period_def plan_def)

lemma setInterval_us_in_period:
  assumes "us \<noteq> 0"
  shows "\<exists>k r. in_period cb k r 0 (setInterval_us a cb us t) \<and>
           (a \<noteq> VARIANT_ARDUINO_STM32 \<or> k = 0)"
proof (cases a)
  case (ARDUINO_ARCH_AVR F_CPU)
  obtain m ov rm where p: "avr_plan_us (avr_rescale F_CPU (unat us)) = (m, ov, rm)"
    by (cases "avr_plan_us (avr_rescale F_CPU (unat us))") auto
  let ?t = "(cli ((clearTimer a t)
             \<lparr>u_cb := cb, u_type := UTIMERLIB_TYPE_INTERVAL\<rparr>))
             \<lparr>u_overflows := ov, u_remaining := rm\<rparr>"
  have eq: "setInterval_us a cb us t = avr_arm F_CPU True m ?t"
    using assms ARDUINO_ARCH_AVR p
    by (simp add: setInterval_us_def u_attachInterrupt_us_def Let_def)
  have "in_period cb (u_overflows ?t) (u_remaining ?t) 0 (avr_arm F_CPU True m ?t)"
    by (rule avr_arm_in_period) (simp_all add: cli_def)
  with eq ARDUINO_ARCH_AVR show ?thesis by auto
next
  case ARDUINO_ARCH_ESP
  with assms show ?thesis
    by (simp add: in_period_def setInterval_us_def u_attachInterrupt_us_def clearTimer_def
         Let_def)
next
  case VARIANT_ARDUINO_STM32
  with assms show ?thesis
    by (simp add: in_period_def setInterval_us_def u_attachInterrupt_us_def clearTimer_def
         stm32_start_def Let_def)
qed

text \<open>
  For the microsecond setter the cycle is as the specification has it, on the three
  backends and for every duration above zero: after any number \<open>m\<close> of expiries the
  callbacks invoked since the call are exactly \<open>m div L\<close> invocations of the pointer
  given, \<open>L\<close> being the number of expiries of one logical period; the state after \<open>n\<close>
  full periods holds the plan that the setter left; the mode stays Interval.
\<close>

lemma interval_us_cycle:
  assumes "us \<noteq> 0"
  shows "0 < period_events (setInterval_us a cb us t)
    \<and> invoked (expiries a m (setInterval_us a cb us t)) =
        invoked t @ replicate (m div period_events (setInterval_us a cb us t))
          (cb, UTIMERLIB_TYPE_INTERVAL)
    \<and> u_type (expiries a m (setInterval_us a cb us t)) = UTIMERLIB_TYPE_INTERVAL
    \<and> plan (expiries a (n * period_events (setInterval_us a cb us t))
               (setInterval_us a cb us t)) = plan (setInterval_us a cb us t)"
proof -
  let ?t0 = "setInterval_us a cb us t"
  let ?L = "period_events ?t0"
  from setInterval_us_in_period [OF assms] obtain k r
    where t0: "in_period cb k r 0 ?t0" and a: "a \<noteq> VARIANT_ARDUINO_STM32 \<or> k = 0"
    by blast
  have L: "?L = (if k = 0 then 1 else if r > 0 then k + 1 else k)"
    by (rule in_period_events [OF t0])
  then have pos: "0 < ?L" by simp
  have inv0: "invoked ?t0 = invoked t"
    by (simp add: setInterval_us_def attach_us_frame clearTimer_invoked Let_def)
  have cyc: "in_period cb k r (i mod ?L) (expiries a i ?t0) \<and>
      invoked (expiries a i ?t0) =
       invoked t @ replicate (i div ?L) (cb, UTIMERLIB_TYPE_INTERVAL)" for i
    using interval_cycle [OF t0 a, of i, folded L] inv0 by simp
  from cyc [of m] have ty: "u_type (expiries a m ?t0) = UTIMERLIB_TYPE_INTERVAL"
    by (simp add: in_period_def)
  from cyc [of "n * ?L"] have "in_period cb k r 0 (expiries a (n * ?L) ?t0)"
    by simp
  with t0 have pl: "plan (expiries a (n * ?L) ?t0) = plan ?t0"
    by (auto simp add: in_period_def plan_def split: if_splits)
  from pos cyc [of m] ty pl show ?thesis by simp
qed

section \<open>The interval cycle of the seconds setter\<close>

text \<open>
  On AVR the seconds method multiplies the seconds by 1000000 in \<^verbatim>\<open>unsigned long\<close>: the
  other expression of line 441 is guarded by the stale counter and is never taken, so
  from 4295 seconds on the product wraps around and the plan may come out with no
  overflow. The method then loads the remainder without clearing it (line 463, unlike
  line 176). At 133144 seconds and 16 MHz: the plan is no overflow and the preload 39;
  the first expiry loads the same preload again and invokes nothing; the second expiry
  invokes the callback and re-arms with a cleared remainder; from then on every expiry
  invokes it.
\<close>

lemma seconds_133144_trace:
  "plan (setInterval_s (ARDUINO_ARCH_AVR 16000000) (Some 7) 133144 init_state) = (0, 39, 0, 39)
   \<and> invoked (expiries (ARDUINO_ARCH_AVR 16000000) 1
        (setInterval_s (ARDUINO_ARCH_AVR 16000000) (Some 7) 133144 init_state)) = []
   \<and> plan (expiries (ARDUINO_ARCH_AVR 16000000) 1
        (setInterval_s (ARDUINO_ARCH_AVR 16000000) (Some 7) 133144 init_state)) = (0, 0, 0, 39)
   \<and> invoked (expiries (ARDUINO_ARCH_AVR 16000000) 2
        (setInterval_s (ARDUINO_ARCH_AVR 16000000) (Some 7) 133144 init_state)) =
       [(Some 7, UTIMERLIB_TYPE_INTERVAL)]
   \<and> plan (expiries (ARDUINO_ARCH_AVR 16000000) 2
        (setInterval_s (ARDUINO_ARCH_AVR 16000000) (Some 7) 133144 init_state)) = (0, 0, 0, 39)
   \<and> invoked (expiries (ARDUINO_ARCH_AVR 16000000) 3
        (setInterval_s (ARDUINO_ARCH_AVR 16000000) (Some 7) 133144 init_state)) =
       [(Some 7, UTIMERLIB_TYPE_INTERVAL), (Some 7, UTIMERLIB_TYPE_INTERVAL)]"
proof -
  let ?a = "ARDUINO_ARCH_AVR 16000000"
  let ?t0 = "setInterval_s ?a (Some 7) 133144 init_state"
  have a: "?a \<noteq> VARIANT_ARDUINO_STM32" by simp
  have p: "plan ?t0 = (0, 39, 0, 39)"
    by (simp add: setInterval_s_def u_attachInterrupt_s_def avr_arm_plan Let_def init_state_def
        avr_rescale_16 ul_def cli_def clearTimer_def to_unsigned_def floor_rat_numeral)
  have f: "u_type ?t0 = UTIMERLIB_TYPE_INTERVAL" "u_cb ?t0 = Some 7" "invoked ?t0 = []"
    by (simp_all add: setInterval_s_def attach_s_frame clearTimer_invoked init_state_def Let_def)
  let ?t1 = "u_interrupt ?a ?t0"
  from interrupt_interval [OF f(1) a] p f
  have s1: "u_type ?t1 = UTIMERLIB_TYPE_INTERVAL" "u_cb ?t1 = Some 7" "invoked ?t1 = []"
    "u_overflows ?t1 = 0" "u_remaining ?t1 = 0" "uu_overflows ?t1 = 0" "uu_remaining ?t1 = 39"
    by (simp_all add: plan_def)
  let ?t2 = "u_interrupt ?a ?t1"
  from interrupt_interval [OF s1(1) a] s1
  have s2: "u_type ?t2 = UTIMERLIB_TYPE_INTERVAL" "u_cb ?t2 = Some 7"
    "invoked ?t2 = [(Some 7, UTIMERLIB_TYPE_INTERVAL)]"
    "u_overflows ?t2 = 0" "u_remaining ?t2 = 0" "uu_overflows ?t2 = 0" "uu_remaining ?t2 = 39"
    by simp_all
  let ?t3 = "u_interrupt ?a ?t2"
  from interrupt_interval [OF s2(1) a] s2
  have s3: "invoked ?t3 = [(Some 7, UTIMERLIB_TYPE_INTERVAL), (Some 7, UTIMERLIB_TYPE_INTERVAL)]"
    by simp
  have e: "expiries ?a 1 ?t0 = ?t1" "expiries ?a 2 ?t0 = ?t2" "expiries ?a 3 ?t0 = ?t3"
    by (simp_all add: numeral_2_eq_2 numeral_3_eq_3)
  from p s1 s2 s3 show ?thesis
    unfolding e by (simp add: plan_def)
qed

text \<open>
  With a clock of 8 MHz the quotient of the clocks is 0 and every duration is rescaled
  to 0: every seconds interval gets the plan of no overflow and the preload 255, with
  the remainder not cleared.
\<close>

lemma seconds_plan_8MHz:
  assumes "s \<noteq> 0"
  shows "plan (setInterval_s (ARDUINO_ARCH_AVR 8000000) cb s init_state) = (0, 255, 0, 255)"
  using assms
  by (simp add: setInterval_s_def u_attachInterrupt_s_def avr_arm_plan Let_def init_state_def
      avr_rescale_def ul_def cli_def clearTimer_def to_unsigned_def floor_rat_numeral)

text \<open>
  On STM32 the seconds method sets the library timer to one second and stores the
  seconds as the overflow count, and the handler calls the callback on every expiry
  without counting.
\<close>

lemma stm32_expiries:
  "u_type t \<noteq> UTIMERLIB_TYPE_OFF \<Longrightarrow>
   expiries VARIANT_ARDUINO_STM32 n t =
     t\<lparr>invoked := invoked t @ replicate n (u_cb t, u_type t)\<rparr>"
proof (induction n arbitrary: t)
  case 0
  then show ?case by simp
next
  case (Suc n)
  let ?t = "t\<lparr>invoked := invoked t @ [(u_cb t, u_type t)]\<rparr>"
  from Suc.prems have "u_type ?t \<noteq> UTIMERLIB_TYPE_OFF" by simp
  then have "expiries VARIANT_ARDUINO_STM32 n ?t =
      ?t\<lparr>invoked := invoked ?t @ replicate n (u_cb ?t, u_type ?t)\<rparr>"
    by (rule Suc.IH)
  with Suc.prems show ?case by (simp add: stm32_interrupt)
qed

lemma stm32_seconds_5:
  "plan (setInterval_s VARIANT_ARDUINO_STM32 (Some 7) 5 init_state) = (5, 0, 5, 0)
   \<and> u_type (setInterval_s VARIANT_ARDUINO_STM32 (Some 7) 5 init_state) = UTIMERLIB_TYPE_INTERVAL
   \<and> u_cb (setInterval_s VARIANT_ARDUINO_STM32 (Some 7) 5 init_state) = Some 7
   \<and> invoked (setInterval_s VARIANT_ARDUINO_STM32 (Some 7) 5 init_state) = []
   \<and> Timer3_period (setInterval_s VARIANT_ARDUINO_STM32 (Some 7) 5 init_state) = 1000000"
  by (simp add: setInterval_s_def u_attachInterrupt_s_def stm32_start_def clearTimer_def
      plan_def init_state_def Let_def)

text \<open>
  Claim C2 says that an interval invokes its callback exactly once per logical period,
  on the last expiry of the period and on no other. The code at two inputs, on a fresh
  object. On AVR at 16 MHz, \<^verbatim>\<open>setInterval_s\<close> with 133144 seconds leaves a plan whose
  period is one expiry, and the first expiry invokes nothing: the first callback comes
  with the second expiry. On STM32, \<^verbatim>\<open>setInterval_s\<close> with 5 seconds arms the library
  timer for one second and leaves a plan whose period is five expiries, and the first
  expiry invokes the callback already: five expiries invoke it five times.
\<close>

theorem seconds_interval_misses_the_period:
  "period_events (setInterval_s (ARDUINO_ARCH_AVR 16000000) (Some 7) 133144 init_state) = 1
   \<and> invoked (expiries (ARDUINO_ARCH_AVR 16000000) 1
        (setInterval_s (ARDUINO_ARCH_AVR 16000000) (Some 7) 133144 init_state)) = []
   \<and> invoked (expiries (ARDUINO_ARCH_AVR 16000000) 2
        (setInterval_s (ARDUINO_ARCH_AVR 16000000) (Some 7) 133144 init_state)) =
       [(Some 7, UTIMERLIB_TYPE_INTERVAL)]
   \<and> period_events (setInterval_s VARIANT_ARDUINO_STM32 (Some 7) 5 init_state) = 5
   \<and> Timer3_period (setInterval_s VARIANT_ARDUINO_STM32 (Some 7) 5 init_state) = 1000000
   \<and> invoked (expiries VARIANT_ARDUINO_STM32 1
        (setInterval_s VARIANT_ARDUINO_STM32 (Some 7) 5 init_state)) =
       [(Some 7, UTIMERLIB_TYPE_INTERVAL)]
   \<and> invoked (expiries VARIANT_ARDUINO_STM32 5
        (setInterval_s VARIANT_ARDUINO_STM32 (Some 7) 5 init_state)) =
       replicate 5 (Some 7, UTIMERLIB_TYPE_INTERVAL)"
proof -
  let ?s = "setInterval_s VARIANT_ARDUINO_STM32 (Some 7) 5 init_state"
  from stm32_seconds_5 have ty: "u_type ?s \<noteq> UTIMERLIB_TYPE_OFF" by simp
  have e: "invoked (expiries VARIANT_ARDUINO_STM32 n ?s) =
      replicate n (Some 7, UTIMERLIB_TYPE_INTERVAL)" for n
    unfolding stm32_expiries [OF ty] using stm32_seconds_5 by simp
  have one: "replicate 1 x = [x]" for x :: "'a" by simp
  from e [of 1] have e1: "invoked (expiries VARIANT_ARDUINO_STM32 1 ?s) =
      [(Some 7, UTIMERLIB_TYPE_INTERVAL)]"
    by (simp only: one)
  have avr: "period_events
      (setInterval_s (ARDUINO_ARCH_AVR 16000000) (Some 7) 133144 init_state) = 1"
    and stm: "period_events ?s = 5"
    using seconds_133144_trace stm32_seconds_5 by (simp_all add: period_events_def plan_def)
  from seconds_133144_trace stm32_seconds_5 avr stm e1 e [of 5] show ?thesis
    by (simp only:)
qed

text \<open>
  Claim C3 says that after the callback of a period has fired the re-armed plan is the
  plan computed at the start, every cycle being the same. The code on AVR at 16 MHz,
  \<^verbatim>\<open>setInterval_s\<close> with 133144 seconds on a fresh object: the setter leaves the working
  remainder at 39; the first callback fires on the second expiry, and the plan re-armed
  after it has the working remainder 0; the second callback fires one expiry later. The
  first cycle takes two expiries and the later ones take one.
\<close>

theorem seconds_interval_first_cycle_differs:
  "plan (setInterval_s (ARDUINO_ARCH_AVR 16000000) (Some 7) 133144 init_state) = (0, 39, 0, 39)
   \<and> invoked (expiries (ARDUINO_ARCH_AVR 16000000) 1
        (setInterval_s (ARDUINO_ARCH_AVR 16000000) (Some 7) 133144 init_state)) = []
   \<and> invoked (expiries (ARDUINO_ARCH_AVR 16000000) 2
        (setInterval_s (ARDUINO_ARCH_AVR 16000000) (Some 7) 133144 init_state)) =
       [(Some 7, UTIMERLIB_TYPE_INTERVAL)]
   \<and> plan (expiries (ARDUINO_ARCH_AVR 16000000) 2
        (setInterval_s (ARDUINO_ARCH_AVR 16000000) (Some 7) 133144 init_state)) = (0, 0, 0, 39)
   \<and> invoked (expiries (ARDUINO_ARCH_AVR 16000000) 3
        (setInterval_s (ARDUINO_ARCH_AVR 16000000) (Some 7) 133144 init_state)) =
       [(Some 7, UTIMERLIB_TYPE_INTERVAL), (Some 7, UTIMERLIB_TYPE_INTERVAL)]"
  using seconds_133144_trace by simp

section \<open>Rounding on the ESP ticker\<close>

text \<open>
  Claim C10. On the ESP backend a microsecond setter called with a duration above zero
  attaches the ticker for \<open>max 1 (us div 1000)\<close> milliseconds: the integer division
  truncates, the half that is added afterwards is lost in the conversion back to an
  integer, and a result of 0 is raised to 1.
\<close>

theorem esp_ticker_truncates:
  "us \<noteq> 0 \<Longrightarrow>
   u_ticker (setTimeout_us ARDUINO_ARCH_ESP cb us t) = Attached_ms (max 1 (unat us div 1000))
   \<and> u_ticker (setInterval_us ARDUINO_ARCH_ESP cb us t) = Attached_ms (max 1 (unat us div 1000))"
  by (simp add: setTimeout_us_def setInterval_us_def u_attachInterrupt_us_def to_unsigned_half
      Let_def max_def)

theorem esp_ticker_truncates_witness:
  "(999 :: 32 word) \<noteq> 0
   \<and> u_ticker (setTimeout_us ARDUINO_ARCH_ESP (Some 7) 999 init_state) = Attached_ms 1
   \<and> u_ticker (setInterval_us ARDUINO_ARCH_ESP (Some 7) 999 init_state) = Attached_ms 1
   \<and> (2999 :: 32 word) \<noteq> 0
   \<and> u_ticker (setTimeout_us ARDUINO_ARCH_ESP (Some 7) 2999 init_state) = Attached_ms 2
   \<and> u_ticker (setInterval_us ARDUINO_ARCH_ESP (Some 7) 2999 init_state) = Attached_ms 2"
  using esp_ticker_truncates [of 999 "Some 7" init_state]
    esp_ticker_truncates [of 2999 "Some 7" init_state]
  by simp

text \<open>
  Claim C8 says that every backend rounds to the nearest tick, ties up. The code at two
  inputs: on the ESP, 1500 microseconds become 1 millisecond where the nearest is 2; on
  AVR, 16384 microseconds (one overflow exactly) get the preload 255, a remainder leg of
  one tick, where the nearest remainder is no tick at all.
\<close>

theorem rounding_is_not_nearest:
  "u_ticker (setTimeout_us ARDUINO_ARCH_ESP (Some 7) 1500 init_state) = Attached_ms 1
   \<and> nearest_tick 1500 1000 = 2
   \<and> avr_plan_us 16384 = (7, 1, 255)
   \<and> nearest_tick (16384 mod 16384) 64 = 0"
  by (simp add: setTimeout_us_def u_attachInterrupt_us_def to_unsigned_def floor_rat_numeral
      Let_def nearest_tick_def clearTimer_def init_state_def avr_plan_us_def
      CS20_def CS21_def CS22_def)

section \<open>Callback and mode\<close>

text \<open>
  Claim C6, as stated: in every reachable state the callback is set if and only if the
  mode is not Off, and \<^verbatim>\<open>clearTimer\<close> clears the callback. After a timeout is set and
  then cleared, the mode is Off and the callback is still stored.
\<close>

theorem callback_survives_clearTimer:
  "\<not> (u_cb (run (ARDUINO_ARCH_AVR 16000000) [SetTimeout_us (Some 7) 100, ClearTimer]
              init_state) \<noteq> None
      \<longleftrightarrow> u_type (run (ARDUINO_ARCH_AVR 16000000) [SetTimeout_us (Some 7) 100, ClearTimer]
              init_state) \<noteq> UTIMERLIB_TYPE_OFF)"
  by (simp add: clearTimer_type clearTimer_cb setTimeout_us_def attach_us_frame Let_def)

text \<open>
  The setters store the pointer they are given without a test: a setter that is passed
  \<^verbatim>\<open>NULL\<close> leaves the timer armed with no callback.
\<close>

lemma null_pointer_is_stored:
  "u_type (run a [SetTimeout_us None 100] init_state) = UTIMERLIB_TYPE_TIMEOUT
   \<and> u_cb (run a [SetTimeout_us None 100] init_state) = None"
  by (simp add: setTimeout_us_def attach_us_frame Let_def)

text \<open>
  Claim C6, amended. Take any sequence of setter calls, \<^verbatim>\<open>clearTimer\<close> calls and
  expiries in which every setter call passes a function (a pointer other than
  \<^verbatim>\<open>NULL\<close>). In the state it reaches from the initial one, a mode other than Off
  implies that a callback is stored. \<^verbatim>\<open>clearTimer\<close> sets the mode to Off and leaves the
  stored callback as it is; no method ever resets it.
\<close>

theorem armed_timer_has_callback:
  "list_all passes_function es \<Longrightarrow>
   (u_type (run a es init_state) \<noteq> UTIMERLIB_TYPE_OFF \<longrightarrow> u_cb (run a es init_state) \<noteq> None)
   \<and> u_type (clearTimer a (run a es init_state)) = UTIMERLIB_TYPE_OFF
   \<and> u_cb (clearTimer a (run a es init_state)) = u_cb (run a es init_state)"
  using run_cb [of es init_state a]
  by (auto simp add: clearTimer_type clearTimer_cb init_state_def)

theorem armed_timer_has_callback_witness:
  "list_all passes_function [SetTimeout_us (Some 7) 100]
   \<and> u_type (run (ARDUINO_ARCH_AVR 16000000) [SetTimeout_us (Some 7) 100] init_state)
       \<noteq> UTIMERLIB_TYPE_OFF
   \<and> u_cb (run (ARDUINO_ARCH_AVR 16000000) [SetTimeout_us (Some 7) 100] init_state) \<noteq> None
   \<and> u_type (clearTimer (ARDUINO_ARCH_AVR 16000000)
        (run (ARDUINO_ARCH_AVR 16000000) [SetTimeout_us (Some 7) 100] init_state))
       = UTIMERLIB_TYPE_OFF
   \<and> u_cb (clearTimer (ARDUINO_ARCH_AVR 16000000)
        (run (ARDUINO_ARCH_AVR 16000000) [SetTimeout_us (Some 7) 100] init_state))
       = Some 7"
proof -
  have h: "list_all passes_function [SetTimeout_us (Some 7) 100]" by simp
  from armed_timer_has_callback [OF h, of "ARDUINO_ARCH_AVR 16000000"] h
  show ?thesis
    by (simp add: setTimeout_us_def attach_us_frame clearTimer_cb Let_def)
qed

section \<open>The plan as a function of the duration\<close>

lemma attach_s_plan:
  assumes "s \<noteq> 0"
    and "a = VARIANT_ARDUINO_STM32 \<or> (u_overflows t1 \<le> 500000 \<and> u_overflows t2 \<le> 500000)"
  shows "plan (u_attachInterrupt_s a s t1) = plan (u_attachInterrupt_s a s t2)"
proof (cases a)
  case (ARDUINO_ARCH_AVR F_CPU)
  with assms(2) have "\<not> 500000 < u_overflows (cli t1)" "\<not> 500000 < u_overflows (cli t2)"
    by (simp_all add: cli_def)
  then show ?thesis using assms(1) ARDUINO_ARCH_AVR
    by (simp add: u_attachInterrupt_s_def avr_arm_plan Let_def)
next
  case ARDUINO_ARCH_ESP
  with assms(1) show ?thesis
    by (simp add: plan_def u_attachInterrupt_s_def Let_def)
next
  case VARIANT_ARDUINO_STM32
  with assms(1) show ?thesis
    by (simp add: plan_def u_attachInterrupt_s_def stm32_start_def Let_def)
qed

lemma attach_us_plan:
  assumes "us \<noteq> 0"
  shows "plan (u_attachInterrupt_us a us t1) = plan (u_attachInterrupt_us a us t2)"
proof (cases a)
  case (ARDUINO_ARCH_AVR F_CPU)
  with assms show ?thesis
    by (simp add: u_attachInterrupt_us_def avr_arm_plan Let_def split: prod.splits)
next
  case ARDUINO_ARCH_ESP
  with assms show ?thesis
    by (simp add: plan_def u_attachInterrupt_us_def Let_def)
next
  case VARIANT_ARDUINO_STM32
  with assms show ?thesis
    by (simp add: plan_def u_attachInterrupt_us_def stm32_start_def Let_def)
qed

lemma setter_overflows:
  "u_overflows (clearTimer a t\<lparr>u_cb := c, u_type := y\<rparr>) = u_overflows t"
  by (cases a) (simp_all add: clearTimer_def Let_def)

text \<open>
  The seconds method on AVR reads \<^verbatim>\<open>_overflows\<close> before it writes it (line 440): in a
  state with a counter above 500000 it would compute another plan for the same seconds.
  No such state is reachable on AVR.
\<close>

lemma attach_s_reads_overflows:
  "plan (u_attachInterrupt_s (ARDUINO_ARCH_AVR 16000000) 1
           (init_state\<lparr>u_overflows := 500001\<rparr>)) \<noteq>
   plan (u_attachInterrupt_s (ARDUINO_ARCH_AVR 16000000) 1 init_state)"
  by (simp add: u_attachInterrupt_s_def avr_arm_plan Let_def init_state_def avr_rescale_16
      ul_def cli_def)

text \<open>
  Claim C9. The plan that an attach method or a setter leaves for a duration above zero
  depends on the duration and the backend alone. For the seconds methods this holds in
  every reachable state, whatever sequences of events led there: on AVR the overflow
  counter never exceeds 262143, so the test \<^verbatim>\<open>_overflows > 500000\<close> on the previous
  counter always takes the same branch. For the microsecond methods it holds in any two
  states.
\<close>

theorem plan_depends_on_duration_only:
  assumes "s \<noteq> 0" "us \<noteq> 0"
  shows "plan (u_attachInterrupt_s a s (run a es1 init_state)) =
         plan (u_attachInterrupt_s a s (run a es2 init_state))
       \<and> plan (setInterval_s a cb1 s (run a es1 init_state)) =
         plan (setTimeout_s a cb2 s (run a es2 init_state))
       \<and> plan (u_attachInterrupt_us a us t1) = plan (u_attachInterrupt_us a us t2)
       \<and> plan (setInterval_us a cb1 us t1) = plan (setTimeout_us a cb2 us t2)"
proof -
  let ?r1 = "run a es1 init_state" and ?r2 = "run a es2 init_state"
  have r: "a = VARIANT_ARDUINO_STM32 \<or>
      (u_overflows ?r1 \<le> 500000 \<and> u_overflows ?r2 \<le> 500000)"
    using reachable_overflows [of a es1] reachable_overflows [of a es2] by blast
  have 1: "plan (u_attachInterrupt_s a s ?r1) = plan (u_attachInterrupt_s a s ?r2)"
    using assms(1) r by (rule attach_s_plan)
  have 2: "plan (setInterval_s a cb1 s ?r1) = plan (setTimeout_s a cb2 s ?r2)"
    unfolding setInterval_s_def setTimeout_s_def Let_def
    using assms(1) by (rule attach_s_plan) (use r in \<open>simp add: setter_overflows\<close>)
  have 3: "plan (u_attachInterrupt_us a us t1) = plan (u_attachInterrupt_us a us t2)"
    using assms(2) by (rule attach_us_plan)
  have 4: "plan (setInterval_us a cb1 us t1) = plan (setTimeout_us a cb2 us t2)"
    unfolding setInterval_us_def setTimeout_us_def Let_def
    using assms(2) by (rule attach_us_plan)
  from 1 2 3 4 show ?thesis by blast
qed

theorem plan_depends_on_duration_only_witness:
  "(5 :: 32 word) \<noteq> 0 \<and> (20000 :: 32 word) \<noteq> 0
   \<and> plan (u_attachInterrupt_s (ARDUINO_ARCH_AVR 16000000) 5 init_state) = (305, 210, 305, 210)
   \<and> plan (u_attachInterrupt_s (ARDUINO_ARCH_AVR 16000000) 5
        (run (ARDUINO_ARCH_AVR 16000000) [SetInterval_us (Some 7) 4294967295, Expire]
           init_state))
       = (305, 210, 305, 210)
   \<and> plan (setTimeout_s (ARDUINO_ARCH_AVR 16000000) (Some 8) 5
        (run (ARDUINO_ARCH_AVR 16000000) [SetInterval_us (Some 7) 4294967295, Expire]
           init_state))
       = plan (setInterval_s (ARDUINO_ARCH_AVR 16000000) (Some 7) 5 init_state)"
proof -
  have p: "plan (u_attachInterrupt_s (ARDUINO_ARCH_AVR 16000000) 5 init_state) =
      (305, 210, 305, 210)"
    by (simp add: u_attachInterrupt_s_def avr_arm_plan Let_def init_state_def avr_rescale_16
        ul_def cli_def to_unsigned_def floor_rat_numeral)
  have h: "(5 :: 32 word) \<noteq> 0" "(20000 :: 32 word) \<noteq> 0" by simp_all
  from plan_depends_on_duration_only [OF h, where a = "ARDUINO_ARCH_AVR 16000000"
      and ?es1.0 = "[]" and ?es2.0 = "[SetInterval_us (Some 7) 4294967295, Expire]"
      and ?cb1.0 = "Some 7" and ?cb2.0 = "Some 8"
      and ?t1.0 = init_state and ?t2.0 = init_state] p h
  show ?thesis by simp
qed

section \<open>The plans of the AVR methods\<close>

text \<open>
  From 16384 microseconds on, the plan is the quotient by 16384 and a preload of 255
  minus the number of whole ticks of 64 microseconds in the rest.
\<close>

lemma avr_plan_us_large:
  assumes "16384 \<le> us"
  shows "avr_plan_us us = (7, us div 16384, 255 - (us mod 16384) div 64)"
proof -
  have "us mod 16384 < 16384" by simp
  then have "(us mod 16384) div 64 \<le> 255" by simp
  then have "to_unsigned (256 - (of_nat ((us mod 16384) div 64) + 1 / 2)) =
      255 - (us mod 16384) div 64"
    by (rule to_unsigned_preload)
  with assms show ?thesis
    by (simp add: avr_plan_us_def CS20_def CS21_def CS22_def)
qed

text \<open>
  A preload of \<open>rm\<close> leaves \<open>256 - rm\<close> ticks until the counter overflows (lines 158 and
  161 load \<open>256\<close> minus the exact number of ticks). As numbers, the whole overflows and
  that last leg add up to more than the request and to at most one tick of 64
  microseconds more.
\<close>

lemma avr_plan_us_within_tick:
  assumes "16384 \<le> us" "avr_plan_us us = (m, k, rm)"
  shows "k = us div 16384 \<and> rm \<le> 255
     \<and> us < k * 16384 + (256 - rm) * 64 \<and> k * 16384 + (256 - rm) * 64 \<le> us + 64"
proof -
  define r where "r = us mod 16384"
  define q where "q = r div 64"
  from assms have k: "k = us div 16384" and rm: "rm = 255 - q"
    by (simp_all add: avr_plan_us_large r_def q_def)
  have "r < 16384" by (simp add: r_def)
  then have q: "q \<le> 255" by (simp add: q_def)
  have us: "us = k * 16384 + r" by (simp add: k r_def)
  have r: "q * 64 \<le> r" "r < (q + 1) * 64"
    by (simp_all add: q_def)
  from q rm have leg: "256 - rm = q + 1" by simp
  from k rm us r show ?thesis unfolding leg by simp
qed

text \<open>
  When the rest holds 255 whole ticks, the preload is 0: the last leg is a whole overflow
  period, and it is stored as the value that the handler reads as no remainder.
\<close>

lemma avr_plan_us_whole_period:
  assumes "16384 \<le> us" "16320 \<le> us mod 16384"
  shows "snd (snd (avr_plan_us us)) = 0"
proof -
  from assms(2) have "255 \<le> (us mod 16384) div 64" by simp
  with assms(1) show ?thesis by (simp add: avr_plan_us_large)
qed

text \<open>
  Both AVR methods compute a remainder below 256, the microsecond method for every
  rescaled duration above zero: there a field of one byte holds what the natural number
  of the model holds.
\<close>

lemma wrap_minus:
  fixes M :: nat
  assumes "y \<le> x" "x < M"
  shows "(M + x - y mod M) mod M = x - y"
proof -
  from assms have "y mod M = y" by simp
  moreover from assms(1) have "M + x - y = M + (x - y)" by arith
  moreover have "(M + (x - y)) mod M = (x - y) mod M" by (rule mod_add_self1)
  moreover from assms(2) have "x - y < M" by arith
  then have "(x - y) mod M = x - y" by (rule mod_less)
  ultimately show ?thesis by (simp only:)
qed

lemma ul_minus:
  assumes "y \<le> x" "x < 2 ^ 32"
  shows "ul (2 ^ 32 + x - ul y) = x - y"
  unfolding ul_def using assms by (rule wrap_minus)

lemma avr_plan_us_byte:
  assumes "0 < us"
  shows "snd (snd (avr_plan_us us)) \<le> 255"
proof -
  have pre: "to_unsigned (511 / 2 - of_nat q) = 255 - q" if "q \<le> 255" for q
    using to_unsigned_preload [OF that] by simp
  have a: "(us mod 16384) div 64 \<le> 255"
    using mod_less_divisor [of 16384 us] by simp
  show ?thesis
  proof (cases "128 \<le> us")
    case True
    then show ?thesis
      using a by (simp add: avr_plan_us_def pre)
  next
    case False
    show ?thesis
    proof (cases "16 \<le> us")
      case True
      with False have "us * 2 \<le> 256" by simp
      then have "ul (2 ^ 32 + 256 - ul (us * 2)) = 256 - us * 2"
        by (rule ul_minus) simp
      with True False show ?thesis
        by (simp add: avr_plan_us_def del: power_numeral)
    next
      case small: False
      then have "us * 16 \<le> 256" by simp
      then have "ul (2 ^ 32 + 256 - ul (us * 16)) = 256 - us * 16"
        by (rule ul_minus) simp
      with small assms show ?thesis
        by (simp add: avr_plan_us_def)
    qed
  qed
qed

lemma attach_us_byte:
  assumes "us \<noteq> 0" "0 < avr_rescale F_CPU (unat us)"
  shows "uu_remaining (u_attachInterrupt_us (ARDUINO_ARCH_AVR F_CPU) us t) \<le> 255"
proof -
  let ?us = "avr_rescale F_CPU (unat us)"
  obtain m ov rm where p: "avr_plan_us ?us = (m, ov, rm)"
    by (cases "avr_plan_us ?us") auto
  from assms(2) have "snd (snd (avr_plan_us ?us)) \<le> 255" by (rule avr_plan_us_byte)
  with p have "rm \<le> 255" by simp
  with assms(1) p show ?thesis
    using avr_arm_plan [of F_CPU True m]
    by (simp add: u_attachInterrupt_us_def Let_def plan_def)
qed

lemma attach_s_byte:
  assumes "s \<noteq> 0"
  shows "uu_remaining (u_attachInterrupt_s (ARDUINO_ARCH_AVR F_CPU) s t) \<le> 255"
proof -
  have pre: "to_unsigned (511 / 2 - of_nat ((x mod 16384) div 64)) \<le> 255" for x
  proof -
    have "(x mod 16384) div 64 \<le> 255"
      using mod_less_divisor [of 16384 x] by simp
    then have "to_unsigned (256 - (of_nat ((x mod 16384) div 64) + 1 / 2)) =
        255 - (x mod 16384) div 64"
      by (rule to_unsigned_preload)
    then show ?thesis by simp
  qed
  from assms show ?thesis
    using avr_arm_plan [of F_CPU False]
    by (simp add: u_attachInterrupt_s_def Let_def plan_def pre)
qed

text \<open>
  Claim C1 says that the remainder of the plan is below one overflow period and that
  overflows and remainder add up to the request within one tick. The code at 32767
  microseconds, on a fresh object at 16 MHz: one overflow and the preload 0, the
  prescaler of 64 microsecond ticks, the counter started from 0; the first expiry, one
  overflow period of 16384 microseconds after the call, completes the timeout and
  invokes the callback.
\<close>

theorem whole_period_remainder_is_skipped:
  "plan (setTimeout_us (ARDUINO_ARCH_AVR 16000000) (Some 7) 32767 init_state) = (1, 0, 1, 0)
   \<and> TCCR2B (setTimeout_us (ARDUINO_ARCH_AVR 16000000) (Some 7) 32767 init_state) = 7
   \<and> TCNT2 (setTimeout_us (ARDUINO_ARCH_AVR 16000000) (Some 7) 32767 init_state) = 0
   \<and> invoked (expiries (ARDUINO_ARCH_AVR 16000000) 1
        (setTimeout_us (ARDUINO_ARCH_AVR 16000000) (Some 7) 32767 init_state))
       = [(Some 7, UTIMERLIB_TYPE_OFF)]"
  by (simp add: plan_def u_interrupt_def call_cb_def setTimeout_us_def clearTimer_def
      u_attachInterrupt_us_def avr_arm_def avr_plan_us_large cli_def sei_def u_loadRemaining_def
      init_state_def avr_rescale_16 Let_def CS20_def CS21_def CS22_def)

end
